theory Spec2Isabelle
  imports
    Main
    "HOL-Library.Sublist"
    "HOL-Library.Char_ord"
    "HOL-Library.List_Lexorder"
    "HOL-Library.Multiset"
begin

section \<open>Subdomain enumeration: the embedding of \<^verbatim>\<open>subdomain_enum.py\<close>\<close>

text \<open>
  The program queries four public data sources for the hostnames of a target domain,
  merges what they report into one set and prints the sorted result. The embedding
  follows the source function by function. What the network answers is an input of the
  model (a \<open>fetch\<close> per provider), every exception the source can raise inside a
  \<^verbatim>\<open>try\<close> is a branch, and the result set is a HOL set.

  A string is the list of the bytes of its UTF-8 encoding, so an ASCII character is one
  element and the order of two strings is the order Python gives them. The string
  methods below are exact on ASCII text. On other characters they are not:
  \<open>lower_chr\<close> and \<open>isspace\<close> leave every byte above \<open>0x7F\<close> alone, where
  \<^verbatim>\<open>str.lower()\<close> lowers letters such as U+00C9 and \<^verbatim>\<open>str.strip()\<close> removes blanks
  such as U+00A0, and \<open>is_word\<close> holds for no such byte, where \<^verbatim>\<open>\w\<close> matches every
  letter and digit of Unicode. Statements that depend on this are made for ASCII input.
  Printing is assumed to succeed and is left out.
\<close>

subsection \<open>The string methods the source calls\<close>

definition lower_chr :: "char \<Rightarrow> char" where
  "lower_chr c =
     (if CHR ''A'' \<le> c \<and> c \<le> CHR ''Z'' then char_of (of_char c + (32::nat)) else c)"

text \<open>\<^verbatim>\<open>str.lower()\<close>\<close>

definition lower :: "string \<Rightarrow> string" where
  "lower s = map lower_chr s"

text \<open>
  \<^verbatim>\<open>str.isspace()\<close> on one character: tab, line feed, vertical tab, form feed, carriage
  return, the four separators \<open>0x1C\<close> to \<open>0x1F\<close> and the space.
\<close>

definition isspace :: "char \<Rightarrow> bool" where
  "isspace c \<longleftrightarrow>
     (CHR 0x09 \<le> c \<and> c \<le> CHR 0x0D) \<or> (CHR 0x1C \<le> c \<and> c \<le> CHR 0x20)"

text \<open>\<^verbatim>\<open>str.strip()\<close>\<close>

definition strip :: "string \<Rightarrow> string" where
  "strip s = rev (dropWhile isspace (rev (dropWhile isspace s)))"

text \<open>\<^verbatim>\<open>s.endswith(suf)\<close>\<close>

definition endswith :: "string \<Rightarrow> string \<Rightarrow> bool" where
  "endswith s suf \<longleftrightarrow> suffix suf s"

text \<open>
  \<^verbatim>\<open>s.split(sep)\<close> for a one-character separator: the pieces between the separators,
  always at least one piece.
\<close>

fun split_chr :: "char \<Rightarrow> string \<Rightarrow> string list" where
  "split_chr sep [] = [[]]"
| "split_chr sep (c # cs) =
     (if c = sep then [] # split_chr sep cs
      else (case split_chr sep cs of
              [] \<Rightarrow> [[c]]
            | w # ws \<Rightarrow> (c # w) # ws))"

text \<open>\<^verbatim>\<open>needle in hay\<close> for strings\<close>

fun str_contains :: "string \<Rightarrow> string \<Rightarrow> bool" where
  "str_contains needle [] \<longleftrightarrow> needle = []"
| "str_contains needle (c # cs) \<longleftrightarrow> prefix needle (c # cs) \<or> str_contains needle cs"

abbreviation newline :: char where
  "newline \<equiv> CHR 0x0A"

subsection \<open>Exceptions, JSON values and what a request returns\<close>

datatype exn =
  ConnectionError | Timeout | JSONDecodeError | TypeError | AttributeError | IndexError | OSError

text \<open>
  A parsed JSON document. An object keeps its members in document order with distinct
  keys, as the dictionary that \<^verbatim>\<open>json\<close> builds does.
\<close>

datatype json =
    JNull
  | JBool bool
  | JNum int
  | JStr string
  | JArr "json list"
  | JObj "(string \<times> json) list"

text \<open>
  The response of \<^verbatim>\<open>requests.get\<close>: the status code, the body as text, and what
  \<^verbatim>\<open>response.json()\<close> gives (\<open>None\<close> when the body is not JSON and the call raises).
\<close>

record response =
  status_code :: int
  text_of :: string
  json_of :: "json option"

datatype fetch = Fails exn | Responds response

text \<open>\<^verbatim>\<open>for entry in v\<close>: the values the loop visits, or the \<^verbatim>\<open>TypeError\<close> of a value
  that cannot be iterated.\<close>

fun py_iter :: "json \<Rightarrow> exn + json list" where
  "py_iter (JArr xs) = Inr xs"
| "py_iter (JObj kvs) = Inr (map (\<lambda>kv. JStr (fst kv)) kvs)"
| "py_iter (JStr s) = Inr (map (\<lambda>c. JStr [c]) s)"
| "py_iter _ = Inl TypeError"

text \<open>\<^verbatim>\<open>v.get(key, default)\<close>: only a dictionary has the method.\<close>

fun py_get :: "json \<Rightarrow> string \<Rightarrow> json \<Rightarrow> exn + json" where
  "py_get (JObj kvs) key dflt = Inr (case map_of kvs key of None \<Rightarrow> dflt | Some v \<Rightarrow> v)"
| "py_get _ key dflt = Inl AttributeError"

text \<open>The receiver of a string method (\<^verbatim>\<open>split\<close>, \<^verbatim>\<open>lower\<close>): only a string has it.\<close>

fun py_str :: "json \<Rightarrow> exn + string" where
  "py_str (JStr s) = Inr s"
| "py_str _ = Inl AttributeError"

subsection \<open>\<^verbatim>\<open>query_crtsh\<close>: the certificate-transparency log\<close>

text \<open>The inner loop, \<^verbatim>\<open>for name in names\<close>; nothing in it can raise.\<close>

fun crtsh_names :: "string \<Rightarrow> string list \<Rightarrow> string set \<Rightarrow> string set" where
  "crtsh_names domain [] subdomains = subdomains"
| "crtsh_names domain (n # ns) subdomains =
     (let name = lower (strip n)
      in crtsh_names domain ns
           (if endswith name domain \<and> CHR ''*'' \<notin> set name
            then insert name subdomains else subdomains))"

text \<open>
  The outer loop, \<^verbatim>\<open>for entry in data\<close>. An entry that is no dictionary, or whose
  \<^verbatim>\<open>name_value\<close> is no string, raises; the names added before that stay in the set.
\<close>

fun crtsh_entries :: "string \<Rightarrow> json list \<Rightarrow> string set \<Rightarrow> string set \<times> exn option" where
  "crtsh_entries domain [] subdomains = (subdomains, None)"
| "crtsh_entries domain (entry # es) subdomains =
     (case py_get entry ''name_value'' (JStr []) of
        Inl e \<Rightarrow> (subdomains, Some e)
      | Inr v \<Rightarrow>
          (case py_str v of
             Inl e \<Rightarrow> (subdomains, Some e)
           | Inr s \<Rightarrow> crtsh_entries domain es (crtsh_names domain (split_chr newline s) subdomains)))"

text \<open>The body of the \<^verbatim>\<open>try\<close>: the set built so far and the exception that ended it, if any.\<close>

definition crtsh_try :: "string \<Rightarrow> fetch \<Rightarrow> string set \<times> exn option" where
  "crtsh_try domain f =
     (case f of
        Fails e \<Rightarrow> ({}, Some e)
      | Responds r \<Rightarrow>
          if status_code r = 200 then
            (case json_of r of
               None \<Rightarrow> ({}, Some JSONDecodeError)
             | Some data \<Rightarrow>
                 (case py_iter data of
                    Inl e \<Rightarrow> ({}, Some e)
                  | Inr es \<Rightarrow> crtsh_entries domain es {}))
          else ({}, None))"

text \<open>\<^verbatim>\<open>except Exception\<close> prints the exception; the function returns the set either way.\<close>

definition query_crtsh :: "string \<Rightarrow> fetch \<Rightarrow> string set" where
  "query_crtsh domain f = fst (crtsh_try domain f)"

subsection \<open>\<^verbatim>\<open>query_hackertarget\<close>: the host search with one \<^verbatim>\<open>hostname,ip\<close> per line\<close>

text \<open>\<^verbatim>\<open>xs[0]\<close>\<close>

fun py_first :: "'a list \<Rightarrow> exn + 'a" where
  "py_first [] = Inl IndexError"
| "py_first (x # xs) = Inr x"

fun hackertarget_lines :: "string \<Rightarrow> string list \<Rightarrow> string set \<Rightarrow> string set \<times> exn option" where
  "hackertarget_lines domain [] subdomains = (subdomains, None)"
| "hackertarget_lines domain (line # ls) subdomains =
     (if CHR '','' \<in> set line then
        (case py_first (split_chr CHR '','' line) of
           Inl e \<Rightarrow> (subdomains, Some e)
         | Inr field \<Rightarrow>
             (let subdomain = lower (strip field)
              in hackertarget_lines domain ls
                   (if endswith subdomain domain then insert subdomain subdomains
                    else subdomains)))
      else hackertarget_lines domain ls subdomains)"

definition hackertarget_try :: "string \<Rightarrow> fetch \<Rightarrow> string set \<times> exn option" where
  "hackertarget_try domain f =
     (case f of
        Fails e \<Rightarrow> ({}, Some e)
      | Responds r \<Rightarrow>
          if status_code r = 200 \<and> \<not> str_contains ''error'' (lower (text_of r)) then
            hackertarget_lines domain (split_chr newline (text_of r)) {}
          else ({}, None))"

definition query_hackertarget :: "string \<Rightarrow> fetch \<Rightarrow> string set" where
  "query_hackertarget domain f = fst (hackertarget_try domain f)"

subsection \<open>\<^verbatim>\<open>query_rapiddns\<close>: the pattern scan of an HTML page\<close>

text \<open>
  \<^verbatim>\<open>\w\<close> on ASCII: a letter, a digit or the underscore. No byte above \<open>0x7F\<close> counts
  as a word character, so a label is cut where a letter outside ASCII begins.
\<close>

definition is_word :: "char \<Rightarrow> bool" where
  "is_word c \<longleftrightarrow>
     (CHR ''a'' \<le> c \<and> c \<le> CHR ''z'') \<or> (CHR ''A'' \<le> c \<and> c \<le> CHR ''Z'') \<or>
     (CHR ''0'' \<le> c \<and> c \<le> CHR ''9'') \<or> c = CHR ''_''"

text \<open>The character class \<^verbatim>\<open>[\w\.-]\<close>.\<close>

definition label_chr :: "char \<Rightarrow> bool" where
  "label_chr c \<longleftrightarrow> is_word c \<or> c = CHR ''.'' \<or> c = CHR ''-''"

text \<open>
  \<^verbatim>\<open>re.escape(domain)\<close> makes the domain a literal, and under \<^verbatim>\<open>re.IGNORECASE\<close> a
  character of the literal matches a character of the text when the two have the same
  lower case or are equivalent for the \<^verbatim>\<open>re\<close> module. Beside the two cases of an ASCII
  letter this equates \<open>s\<close> with U+017F (long s), \<open>i\<close> with U+0130 and U+0131 (dotted
  capital and dotless small i) and \<open>k\<close> with U+212A (the Kelvin sign). These four are the
  only characters outside ASCII that match an ASCII letter. The case folding of other
  characters outside ASCII is not modelled: their bytes match themselves.
\<close>

definition long_s :: string where
  "long_s = [CHR 0xC5, CHR 0xBF]"

definition dotted_I :: string where
  "dotted_I = [CHR 0xC4, CHR 0xB0]"

definition dotless_i :: string where
  "dotless_i = [CHR 0xC4, CHR 0xB1]"

definition kelvin :: string where
  "kelvin = [CHR 0xE2, CHR 0x84, CHR 0xAA]"

text \<open>
  The character that starts with the byte \<open>c\<close> and goes on in \<open>cs\<close>: the letter it
  counts as when case is ignored, and how many bytes it has after the first.
\<close>

definition fold_first :: "char \<Rightarrow> string \<Rightarrow> char \<times> nat" where
  "fold_first c cs =
     (if prefix long_s (c # cs) then (CHR ''s'', 1)
      else if prefix dotted_I (c # cs) \<or> prefix dotless_i (c # cs) then (CHR ''i'', 1)
      else if prefix kelvin (c # cs) then (CHR ''k'', 2)
      else (lower_chr c, 0))"

text \<open>
  The literal \<open>pat\<close> matched at the start of \<open>s\<close>, character by character: the number
  of bytes of \<open>s\<close> that the match takes, or \<open>None\<close> when there is no match.
\<close>

fun ci_lit :: "string \<Rightarrow> string \<Rightarrow> nat option" where
  "ci_lit [] s = Some 0"
| "ci_lit (p # ps) [] = None"
| "ci_lit (p # ps) (c # cs) =
     (case fold_first p ps of (kp, xp) \<Rightarrow>
        (case fold_first c cs of (ks, xs) \<Rightarrow>
           if kp = ks then
             (case ci_lit (drop xp ps) (drop xs cs) of
                None \<Rightarrow> None
              | Some n \<Rightarrow> Some (Suc xs + n))
           else None))"

text \<open>
  The greedy \<^verbatim>\<open>[\w\.-]+\<close> first takes the whole run of class characters and then gives them
  back one at a time, down to one, until \<^verbatim>\<open>\.\<close> and the domain follow. With \<open>Suc j\<close>
  characters kept by the class and \<open>n\<close> bytes matched by the dot and the domain, the
  match has \<open>Suc j + n\<close> bytes; the function returns how many follow the first one.
\<close>

primrec backtrack :: "string \<Rightarrow> string \<Rightarrow> nat \<Rightarrow> nat option" where
  "backtrack domain s 0 = None"
| "backtrack domain s (Suc j) =
     (case ci_lit (CHR ''.'' # domain) (drop (Suc j) s) of
        Some n \<Rightarrow> Some (j + n)
      | None \<Rightarrow> backtrack domain s j)"

definition match_at :: "string \<Rightarrow> string \<Rightarrow> nat option" where
  "match_at domain s = backtrack domain s (length (takeWhile label_chr s))"

text \<open>
  \<^verbatim>\<open>re.findall\<close>: the matches from left to right, none overlapping another; the scan goes
  on behind a match, or one character further where none starts.
\<close>

fun findall :: "string \<Rightarrow> string \<Rightarrow> string list" where
  "findall domain [] = []"
| "findall domain (c # cs) =
     (case match_at domain (c # cs) of
        None \<Rightarrow> findall domain cs
      | Some m \<Rightarrow> (c # take m cs) # findall domain (drop m cs))"

definition rapiddns_try :: "string \<Rightarrow> fetch \<Rightarrow> string set \<times> exn option" where
  "rapiddns_try domain f =
     (case f of
        Fails e \<Rightarrow> ({}, Some e)
      | Responds r \<Rightarrow>
          if status_code r = 200 then (set (map lower (findall domain (text_of r))), None)
          else ({}, None))"

definition query_rapiddns :: "string \<Rightarrow> fetch \<Rightarrow> string set" where
  "query_rapiddns domain f = fst (rapiddns_try domain f)"

subsection \<open>\<^verbatim>\<open>query_alienvault\<close>: the passive-DNS records\<close>

fun alienvault_entries :: "string \<Rightarrow> json list \<Rightarrow> string set \<Rightarrow> string set \<times> exn option" where
  "alienvault_entries domain [] subdomains = (subdomains, None)"
| "alienvault_entries domain (entry # es) subdomains =
     (case py_get entry ''hostname'' (JStr []) of
        Inl e \<Rightarrow> (subdomains, Some e)
      | Inr v \<Rightarrow>
          (case py_str v of
             Inl e \<Rightarrow> (subdomains, Some e)
           | Inr s \<Rightarrow>
               (let hostname = lower s
                in alienvault_entries domain es
                     (if endswith hostname domain then insert hostname subdomains
                      else subdomains))))"

definition alienvault_try :: "string \<Rightarrow> fetch \<Rightarrow> string set \<times> exn option" where
  "alienvault_try domain f =
     (case f of
        Fails e \<Rightarrow> ({}, Some e)
      | Responds r \<Rightarrow>
          if status_code r = 200 then
            (case json_of r of
               None \<Rightarrow> ({}, Some JSONDecodeError)
             | Some data \<Rightarrow>
                 (case py_get data ''passive_dns'' (JArr []) of
                    Inl e \<Rightarrow> ({}, Some e)
                  | Inr v \<Rightarrow>
                      (case py_iter v of
                         Inl e \<Rightarrow> ({}, Some e)
                       | Inr es \<Rightarrow> alienvault_entries domain es {})))
          else ({}, None))"

definition query_alienvault :: "string \<Rightarrow> fetch \<Rightarrow> string set" where
  "query_alienvault domain f = fst (alienvault_try domain f)"

subsection \<open>\<^verbatim>\<open>enumerate_subdomains\<close>: the fan-out and the merge\<close>

datatype provider = Crtsh | HackerTarget | RapidDNS | AlienVault

text \<open>What each data source answers during one run.\<close>

type_synonym world = "provider \<Rightarrow> fetch"

fun query :: "provider \<Rightarrow> string \<Rightarrow> fetch \<Rightarrow> string set" where
  "query Crtsh = query_crtsh"
| "query HackerTarget = query_hackertarget"
| "query RapidDNS = query_rapiddns"
| "query AlienVault = query_alienvault"

text \<open>The four \<^verbatim>\<open>executor.submit\<close> calls, in the order of the dictionary display.\<close>

definition futures :: "provider list" where
  "futures = [Crtsh, HackerTarget, RapidDNS, AlienVault]"

text \<open>
  \<^verbatim>\<open>future.result()\<close> gives what the submitted function returned, or raises what it raised.
  Each of the four functions catches every exception of its own body, so the value is
  always there.
\<close>

definition future_result :: "string \<Rightarrow> world \<Rightarrow> provider \<Rightarrow> exn + string set" where
  "future_result domain w p = Inr (query p domain (w p))"

text \<open>
  The loop over \<^verbatim>\<open>as_completed(futures)\<close>: a result is added to the set with
  \<^verbatim>\<open>update\<close>, an exception is printed and skipped.
\<close>

fun collect :: "(exn + string set) list \<Rightarrow> string set \<Rightarrow> string set" where
  "collect [] all_subdomains = all_subdomains"
| "collect (Inr result # rs) all_subdomains = collect rs (all_subdomains \<union> result)"
| "collect (Inl e # rs) all_subdomains = collect rs all_subdomains"

text \<open>
  One run: the providers handed to the executor and the set returned. The order in which
  the futures complete is not decided by the program; it is the argument \<open>completion\<close>,
  a permutation of \<open>futures\<close>.
\<close>

record enumeration =
  submitted :: "provider list"
  all_subdomains :: "string set"

definition enumerate_subdomains :: "string \<Rightarrow> world \<Rightarrow> provider list \<Rightarrow> enumeration" where
  "enumerate_subdomains domain w completion =
     \<lparr>submitted = futures,
      all_subdomains = collect (map (future_result domain w) completion) {}\<rparr>"

subsection \<open>\<^verbatim>\<open>main\<close>\<close>

text \<open>The parsed command line: \<^verbatim>\<open>-d\<close> (with its default already filled in) and \<^verbatim>\<open>-o\<close>.\<close>

record args =
  domain_arg :: string
  output_arg :: "string option"

text \<open>
  What a call of \<^verbatim>\<open>main\<close> leaves: the providers that were dispatched, the state of the
  files, and the sorted list it returns or the exception it raises.
\<close>

record 'd outcome =
  dispatched :: "provider list"
  disk :: 'd
  returned :: "exn + string list"

text \<open>
  Lines 135 to 145 and 155 are modelled as they stand. Line 152, the statement under
  \<^verbatim>\<open>if args.output\<close>, is damaged in the source as given: it reads
  \<^verbatim>\<open>with open(args.output, 'w', encoding='utf-8'\<close> and goes straight on with
  \<^verbatim>\<open>f.write('\n'.join(sorted_subdomains))\<close>, without the closing parenthesis, without
  \<^verbatim>\<open>as f:\<close> and without a block. What this statement does is therefore not taken from
  the source. It is the parameter \<open>save\<close>: from the path, the sorted list and the state of
  the files to the new state and the exception raised, if any. The test
  \<^verbatim>\<open>if args.output\<close> holds for an option that was given and is not the empty string.
\<close>

definition main ::
  "args \<Rightarrow> world \<Rightarrow> provider list \<Rightarrow> (string \<Rightarrow> string list \<Rightarrow> 'd \<Rightarrow> 'd \<times> exn option) \<Rightarrow> 'd \<Rightarrow>
     'd outcome" where
  "main a w completion save s =
     (let domain = strip (lower (domain_arg a));
          run = enumerate_subdomains domain w completion;
          subdomains = all_subdomains run;
          sorted_subdomains = sorted_list_of_set subdomains;
          ret = \<lparr>dispatched = submitted run, disk = s, returned = Inr sorted_subdomains\<rparr>
      in case output_arg a of
           None \<Rightarrow> ret
         | Some path \<Rightarrow>
             if path = [] then ret
             else
               (case save path sorted_subdomains s of
                  (s', None) \<Rightarrow> ret\<lparr>disk := s'\<rparr>
                | (s', Some e) \<Rightarrow> ret\<lparr>disk := s', returned := Inl e\<rparr>))"

subsection \<open>Inputs used in the statements\<close>

text \<open>A response with status 200 whose body parses to the given JSON document.\<close>

definition json_response :: "json \<Rightarrow> fetch" where
  "json_response j = Responds \<lparr>status_code = 200, text_of = [], json_of = Some j\<rparr>"

text \<open>A response with status 200 whose body is the given text and is not JSON.\<close>

definition text_response :: "string \<Rightarrow> fetch" where
  "text_response t = Responds \<lparr>status_code = 200, text_of = t, json_of = None\<rparr>"

text \<open>A certificate-log entry and a passive-DNS document with the given fields.\<close>

definition crt_entry :: "string \<Rightarrow> json" where
  "crt_entry names = JObj [(''name_value'', JStr names)]"

definition passive_dns :: "string list \<Rightarrow> json" where
  "passive_dns hs = JObj [(''passive_dns'', JArr (map (\<lambda>h. JObj [(''hostname'', JStr h)]) hs))]"

text \<open>
  The ways a provider fails to deliver: the request raises (network error, timeout), the
  status is not 200, or the body of a JSON source does not parse.
\<close>

definition fetch_failed :: "provider \<Rightarrow> fetch \<Rightarrow> bool" where
  "fetch_failed p f =
     (case f of
        Fails e \<Rightarrow> True
      | Responds r \<Rightarrow>
          status_code r \<noteq> 200 \<or> ((p = Crtsh \<or> p = AlienVault) \<and> json_of r = None))"

text \<open>A \<open>save\<close> that leaves the files alone, for runs without an output file.\<close>

definition no_save :: "string \<Rightarrow> string list \<Rightarrow> unit \<Rightarrow> unit \<times> exn option" where
  "no_save path xs d = (d, None)"




text \<open>A host-search body whose second line reports an error.\<close>

definition error_body :: string where
  "error_body =
     ''sub.example.com,93.184.216.34'' @ [newline] @ ''error check your search parameter''"



text \<open>Every provider fails: a timeout, a status 503, a refused connection, a body that is not JSON.\<close>

definition failing_world :: world where
  "failing_world p =
     (case p of
        Crtsh \<Rightarrow> Fails Timeout
      | HackerTarget \<Rightarrow> Responds \<lparr>status_code = 503, text_of = ''busy'', json_of = None\<rparr>
      | RapidDNS \<Rightarrow> Fails ConnectionError
      | AlienVault \<Rightarrow> Responds \<lparr>status_code = 200, text_of = ''<html>'', json_of = None\<rparr>)"

text \<open>One provider reports two hostnames; the other three time out.\<close>

definition partial_world :: world where
  "partial_world p =
     (case p of
        Crtsh \<Rightarrow>
          json_response (JArr [crt_entry (''shop.example.com'' @ [newline] @ ''api.example.com'')])
      | HackerTarget \<Rightarrow> Fails Timeout
      | RapidDNS \<Rightarrow> Fails Timeout
      | AlienVault \<Rightarrow> Fails Timeout)"

text \<open>The certificate log reports a name that has nothing to do with the target.\<close>

definition unrelated_world :: world where
  "unrelated_world p =
     (case p of
        Crtsh \<Rightarrow> json_response (JArr [crt_entry ''unrelated.org''])
      | HackerTarget \<Rightarrow> Fails Timeout
      | RapidDNS \<Rightarrow> Fails Timeout
      | AlienVault \<Rightarrow> Fails Timeout)"

section \<open>Properties\<close>

subsection \<open>Strings\<close>

lemma lower_chr_idem: "lower_chr (lower_chr c) = lower_chr c"
  by (auto simp: lower_chr_def less_eq_char_def)

lemma lower_idem: "lower (lower s) = lower s"
  by (simp add: lower_def lower_chr_idem)

lemma lower_append: "lower (xs @ ys) = lower xs @ lower ys"
  by (simp add: lower_def)






lemma str_contains_iff: "str_contains needle hay \<longleftrightarrow> sublist needle hay"
  by (induction hay) (auto simp: sublist_Cons_right)

lemma sublist_lower: "sublist xs ys \<Longrightarrow> sublist (lower xs) (lower ys)"
  unfolding sublist_def by (metis lower_append)

lemma lower_error: "lower ''error'' = ''error''"
  by code_simp

lemma endswith_iff: "endswith s suf \<longleftrightarrow> (\<exists>p. s = p @ suf)"
  by (simp add: endswith_def suffix_def)

lemma split_chr_nonempty: "split_chr sep s \<noteq> []"
  by (induction s) (auto split: list.splits)


subsection \<open>The loops of the suffix-check providers\<close>

lemma crtsh_names_eq:
  "crtsh_names d ns S =
     S \<union> {name. \<exists>n\<in>set ns. name = lower (strip n) \<and> endswith name d \<and> CHR ''*'' \<notin> set name}"
  by (induction ns arbitrary: S) (auto simp: Let_def)



lemma crtsh_entries_subset:
  "fst (crtsh_entries d es S) \<subseteq>
     S \<union> {name. endswith name d \<and> CHR ''*'' \<notin> set name \<and> lower name = name}"
proof (induction es arbitrary: S)
  case Nil
  then show ?case by simp
next
  case (Cons e es)
  show ?case
  proof (cases "py_get e ''name_value'' (JStr [])")
    case (Inl x)
    then show ?thesis by simp
  next
    case (Inr v)
    show ?thesis
    proof (cases "py_str v")
      case (Inl x)
      with Inr show ?thesis by simp
    next
      case (Inr s)
      have "fst (crtsh_entries d (e # es) S) =
              fst (crtsh_entries d es (crtsh_names d (split_chr newline s) S))"
        using \<open>py_get e ''name_value'' (JStr []) = Inr v\<close> Inr by simp
      also have "\<dots> \<subseteq> crtsh_names d (split_chr newline s) S \<union>
              {name. endswith name d \<and> CHR ''*'' \<notin> set name \<and> lower name = name}"
        by (rule Cons.IH)
      also have "\<dots> \<subseteq> S \<union> {name. endswith name d \<and> CHR ''*'' \<notin> set name \<and> lower name = name}"
        by (auto simp: crtsh_names_eq lower_idem)
      finally show ?thesis .
    qed
  qed
qed

lemma crtsh_entries_wf:
  assumes "\<forall>e\<in>set es. py_get e ''name_value'' (JStr []) = Inr (JStr (nv e))"
  shows "crtsh_entries d es S =
           (S \<union> {name. \<exists>e\<in>set es. \<exists>n\<in>set (split_chr newline (nv e)).
                    name = lower (strip n) \<and> endswith name d \<and> CHR ''*'' \<notin> set name}, None)"
  using assms
proof (induction es arbitrary: S)
  case Nil
  then show ?case by simp
next
  case (Cons e es)
  then show ?case by (auto simp: crtsh_names_eq)
qed

lemma hackertarget_lines_eq:
  "hackertarget_lines d ls S =
     (S \<union> {h. \<exists>line\<in>set ls. CHR '','' \<in> set line \<and>
               h = lower (strip (hd (split_chr CHR '','' line))) \<and> endswith h d}, None)"
proof (induction ls arbitrary: S)
  case Nil
  then show ?case by simp
next
  case (Cons line ls)
  obtain w ws where sp: "split_chr CHR '','' line = w # ws"
    using split_chr_nonempty by (cases "split_chr CHR '','' line") auto
  show ?case
    by (auto simp: Cons.IH sp Let_def)
qed

lemma alienvault_entries_wf:
  assumes "\<forall>e\<in>set es. py_get e ''hostname'' (JStr []) = Inr (JStr (hn e))"
  shows "alienvault_entries d es S =
           (S \<union> {h. \<exists>e\<in>set es. h = lower (hn e) \<and> endswith h d}, None)"
  using assms
  by (induction es arbitrary: S) (auto simp: Let_def)

lemma alienvault_entries_subset:
  "fst (alienvault_entries d es S) \<subseteq> S \<union> {h. endswith h d \<and> lower h = h}"
proof (induction es arbitrary: S)
  case Nil
  then show ?case by simp
next
  case (Cons e es)
  show ?case
  proof (cases "py_get e ''hostname'' (JStr [])")
    case (Inl x)
    then show ?thesis by simp
  next
    case (Inr v)
    show ?thesis
    proof (cases "py_str v")
      case (Inl x)
      with Inr show ?thesis by simp
    next
      case (Inr s)
      let ?S' = "if endswith (lower s) d then insert (lower s) S else S"
      have "fst (alienvault_entries d (e # es) S) = fst (alienvault_entries d es ?S')"
        using \<open>py_get e ''hostname'' (JStr []) = Inr v\<close> Inr by (simp add: Let_def)
      also have "\<dots> \<subseteq> ?S' \<union> {h. endswith h d \<and> lower h = h}"
        by (rule Cons.IH)
      also have "\<dots> \<subseteq> S \<union> {h. endswith h d \<and> lower h = h}"
        by (auto simp: lower_idem)
      finally show ?thesis .
    qed
  qed
qed




subsection \<open>The pattern scan\<close>



















subsection \<open>The merge\<close>

lemma collect_eq:
  "collect rs A = A \<union> (\<Union>r\<in>set rs. case r of Inl e \<Rightarrow> {} | Inr S \<Rightarrow> S)"
  by (induction rs A rule: collect.induct) auto

lemma all_subdomains_eq:
  "all_subdomains (enumerate_subdomains d w c) = (\<Union>p\<in>set c. query p d (w p))"
  by (simp add: enumerate_subdomains_def collect_eq future_result_def)

lemma set_futures: "set futures = UNIV"
proof -
  have "p \<in> set futures" for p by (cases p) (simp_all add: futures_def)
  then show ?thesis by blast
qed

lemma completion_all: "mset c = mset futures \<Longrightarrow> set c = UNIV"
  using set_futures mset_eq_setD by metis

section \<open>The claims\<close>

subsection \<open>C8: the suffix filter has no dot boundary\<close>

lemma py_first_split_chr:
  "py_first (split_chr sep s) = Inr (takeWhile (\<lambda>c. c \<noteq> sep) s)"
proof (induction s)
  case Nil
  then show ?case by simp
next
  case (Cons c cs)
  then show ?case by (cases "split_chr sep cs") auto
qed

lemma hackertarget_lines_takeWhile:
  "hackertarget_lines d ls S =
     (S \<union> {h. \<exists>line\<in>set ls. CHR '','' \<in> set line \<and>
               h = lower (strip (takeWhile (\<lambda>c. c \<noteq> CHR '','') line)) \<and>
               (\<exists>p. h = p @ d)}, None)"
proof (induction ls arbitrary: S)
  case Nil
  then show ?case by simp
next
  case (Cons line ls)
  show ?case
    by (auto simp: Cons.IH py_first_split_chr Let_def endswith_iff)
qed

text \<open>
  Claim C8. The suffix filter of the extraction is a plain string-suffix check without a
  dot boundary. The test \<open>endswith\<close> holds exactly of a string that is some prefix,
  possibly empty, followed by the domain. The loops of the certificate-log provider and
  of the delimited-line provider keep exactly the candidates that pass it (and, in the
  first, have no \<open>*\<close>), and the passive-DNS aggregator keeps only names that pass it;
  nothing is asked of the character before the domain. So for the domain
  \<open>example.com\<close> the candidate \<open>notexample.com\<close> is kept by all three, while
  \<open>example.org\<close> is rejected.
\<close>

theorem suffix_filter_has_no_dot_boundary:
  "(endswith s domain \<longleftrightarrow> (\<exists>p. s = p @ domain)) \<and>
   crtsh_names domain ns S =
     S \<union> {name. \<exists>n\<in>set ns. name = lower (strip n) \<and> (\<exists>p. name = p @ domain) \<and>
                CHR ''*'' \<notin> set name} \<and>
   hackertarget_lines domain ls S =
     (S \<union> {h. \<exists>line\<in>set ls. CHR '','' \<in> set line \<and>
               h = lower (strip (takeWhile (\<lambda>c. c \<noteq> CHR '','') line)) \<and>
               (\<exists>p. h = p @ domain)}, None) \<and>
   fst (alienvault_entries domain es S) \<subseteq> S \<union> {h. \<exists>p. h = p @ domain} \<and>
   query_crtsh ''example.com'' (json_response (JArr [crt_entry ''notexample.com''])) =
     {''notexample.com''} \<and>
   query_hackertarget ''example.com'' (text_response ''notexample.com,93.184.216.34'') =
     {''notexample.com''} \<and>
   query_alienvault ''example.com'' (json_response (passive_dns [''notexample.com''])) =
     {''notexample.com''} \<and>
   query_crtsh ''example.com'' (json_response (JArr [crt_entry ''example.org''])) = {} \<and>
   query_hackertarget ''example.com'' (text_response ''example.org,93.184.216.34'') = {} \<and>
   query_alienvault ''example.com'' (json_response (passive_dns [''example.org''])) = {}"
proof (intro conjI)
  show "endswith s domain \<longleftrightarrow> (\<exists>p. s = p @ domain)"
    by (rule endswith_iff)
  show "crtsh_names domain ns S =
     S \<union> {name. \<exists>n\<in>set ns. name = lower (strip n) \<and> (\<exists>p. name = p @ domain) \<and>
                CHR ''*'' \<notin> set name}"
    by (simp add: crtsh_names_eq endswith_iff)
  show "hackertarget_lines domain ls S =
     (S \<union> {h. \<exists>line\<in>set ls. CHR '','' \<in> set line \<and>
               h = lower (strip (takeWhile (\<lambda>c. c \<noteq> CHR '','') line)) \<and>
               (\<exists>p. h = p @ domain)}, None)"
    by (rule hackertarget_lines_takeWhile)
  show "fst (alienvault_entries domain es S) \<subseteq> S \<union> {h. \<exists>p. h = p @ domain}"
    using alienvault_entries_subset[of domain es S] by (auto simp: endswith_iff)
  show "query_crtsh ''example.com'' (json_response (JArr [crt_entry ''notexample.com''])) =
          {''notexample.com''}"
    by code_simp
  show "query_hackertarget ''example.com'' (text_response ''notexample.com,93.184.216.34'') =
          {''notexample.com''}"
    by code_simp
  show "query_alienvault ''example.com'' (json_response (passive_dns [''notexample.com''])) =
          {''notexample.com''}"
    by code_simp
  show "query_crtsh ''example.com'' (json_response (JArr [crt_entry ''example.org''])) = {}"
    by code_simp
  show "query_hackertarget ''example.com'' (text_response ''example.org,93.184.216.34'') = {}"
    by code_simp
  show "query_alienvault ''example.com'' (json_response (passive_dns [''example.org''])) = {}"
    by code_simp
qed

subsection \<open>C2: the wild card in the delimited-line and passive-DNS providers\<close>

text \<open>
  Every hostname of the three suffix-check providers ends with the domain, and the
  certificate-log provider returns no hostname with a \<open>*\<close>.
\<close>

lemma query_endswith:
  assumes "p \<noteq> RapidDNS" and "h \<in> query p d f"
  shows "endswith h d"
proof (cases p)
  case Crtsh
  with assms(2) have "h \<in> query_crtsh d f" by simp
  then obtain es where "h \<in> fst (crtsh_entries d es {})"
    by (auto simp: query_crtsh_def crtsh_try_def
             split: fetch.splits option.splits sum.splits if_splits)
  with crtsh_entries_subset[of d es "{}"] show ?thesis by auto
next
  case HackerTarget
  with assms(2) have "h \<in> query_hackertarget d f" by simp
  then obtain ls where "h \<in> fst (hackertarget_lines d ls {})"
    by (auto simp: query_hackertarget_def hackertarget_try_def split: fetch.splits if_splits)
  then show ?thesis by (auto simp: hackertarget_lines_eq)
next
  case RapidDNS
  with assms(1) show ?thesis by simp
next
  case AlienVault
  with assms(2) have "h \<in> query_alienvault d f" by simp
  then obtain es where "h \<in> fst (alienvault_entries d es {})"
    by (auto simp: query_alienvault_def alienvault_try_def
             split: fetch.splits option.splits sum.splits if_splits)
  with alienvault_entries_subset[of d es "{}"] show ?thesis by auto
qed

lemma crtsh_no_star:
  assumes "h \<in> query_crtsh d f"
  shows "CHR ''*'' \<notin> set h"
proof -
  from assms obtain es where "h \<in> fst (crtsh_entries d es {})"
    by (auto simp: query_crtsh_def crtsh_try_def
             split: fetch.splits option.splits sum.splits if_splits)
  with crtsh_entries_subset[of d es "{}"] show ?thesis by auto
qed

text \<open>
  Claim C2 asks that every hostname in a provider's result set ends with the domain and
  has no \<open>*\<close>. The certificate-log provider rejects a name with a \<open>*\<close>; the
  delimited-line provider and the passive-DNS aggregator test the suffix only and keep it.
  For the domain \<open>example.com\<close> the name \<open>*.example.com\<close> is in the result set of
  these two and not in that of the certificate-log provider.
\<close>

theorem wildcard_passes_two_providers:
  "query_hackertarget ''example.com'' (text_response ''*.example.com,93.184.216.34'') =
     {''*.example.com''} \<and>
   query_alienvault ''example.com'' (json_response (passive_dns [''*.example.com''])) =
     {''*.example.com''} \<and>
   query_crtsh ''example.com'' (json_response (JArr [crt_entry ''*.example.com''])) = {}"
proof (intro conjI)
  show "query_hackertarget ''example.com'' (text_response ''*.example.com,93.184.216.34'') =
          {''*.example.com''}"
    by code_simp
  show "query_alienvault ''example.com'' (json_response (passive_dns [''*.example.com''])) =
          {''*.example.com''}"
    by code_simp
  show "query_crtsh ''example.com'' (json_response (JArr [crt_entry ''*.example.com''])) = {}"
    by code_simp
qed

subsection \<open>C6: the delimited-line provider\<close>

lemma hackertarget_error:
  assumes "str_contains ''error'' (text_of r)"
  shows "query_hackertarget d (Responds r) = {}"
proof -
  from assms have "sublist ''error'' (text_of r)" by (simp only: str_contains_iff)
  then have "sublist (lower ''error'') (lower (text_of r))" by (rule sublist_lower)
  then have "str_contains ''error'' (lower (text_of r))"
    by (simp only: str_contains_iff lower_error)
  then show ?thesis by (simp add: query_hackertarget_def hackertarget_try_def)
qed

text \<open>
  Claim C6. For the domain \<open>example.com\<close>, the delimited-line provider turns a body
  that is the line \<open>sub.example.com,93.184.216.34\<close> into the set with the one
  element \<open>sub.example.com\<close>. If the text \<open>error\<close> occurs anywhere in the body, the
  provider returns the empty set, whatever the domain, the status and the other lines.
\<close>

theorem hackertarget_line_and_error:
  "query_hackertarget ''example.com'' (text_response ''sub.example.com,93.184.216.34'') =
     {''sub.example.com''} \<and>
   (str_contains ''error'' (text_of r) \<longrightarrow> query_hackertarget domain (Responds r) = {})"
proof (intro conjI impI)
  show "query_hackertarget ''example.com'' (text_response ''sub.example.com,93.184.216.34'') =
          {''sub.example.com''}"
    by code_simp
  show "query_hackertarget domain (Responds r) = {}" if "str_contains ''error'' (text_of r)"
    using that by (rule hackertarget_error)
qed

text \<open>
  The first line of \<open>error_body\<close> alone would give \<open>sub.example.com\<close>; the word
  \<open>error\<close> in the second line empties the whole result.
\<close>

theorem hackertarget_line_and_error_witness:
  "str_contains ''error''
     (text_of \<lparr>status_code = 200, text_of = error_body, json_of = None\<rparr>) \<and>
   query_hackertarget ''example.com''
     (Responds \<lparr>status_code = 200, text_of = error_body, json_of = None\<rparr>) = {}"
proof -
  have h: "str_contains ''error''
             (text_of \<lparr>status_code = 200, text_of = error_body, json_of = None\<rparr>)"
    by code_simp
  from hackertarget_line_and_error
         [of "\<lparr>status_code = 200, text_of = error_body, json_of = None\<rparr>" "''example.com''"]
  have "query_hackertarget ''example.com''
          (Responds \<lparr>status_code = 200, text_of = error_body, json_of = None\<rparr>) = {}"
    using h by (elim conjE) (rule mp)
  with h show ?thesis by (rule conjI)
qed

subsection \<open>C10: the pattern scan and the dot before the domain\<close>







subsection \<open>Facts about the four providers together\<close>



lemma query_failed:
  assumes "fetch_failed p f"
  shows "query p d f = {}"
  using assms
  by (cases p)
     (auto simp: fetch_failed_def query_crtsh_def crtsh_try_def query_hackertarget_def
                 hackertarget_try_def query_rapiddns_def rapiddns_try_def
                 query_alienvault_def alienvault_try_def
           split: fetch.splits)



lemma collect_mset:
  assumes "mset rs = mset rs'"
  shows "collect rs A = collect rs' A"
proof -
  from assms have "set rs = set rs'" by (rule mset_eq_setD)
  then show ?thesis by (simp add: collect_eq)
qed

lemma enumerate_mset:
  assumes "mset c = mset c'"
  shows "enumerate_subdomains d w c = enumerate_subdomains d w c'"
proof -
  from assms have "mset (map (future_result d w) c) = mset (map (future_result d w) c')"
    by (metis mset_map)
  from collect_mset[OF this] show ?thesis by (simp only: enumerate_subdomains_def)
qed

subsection \<open>C4: the sorted result does not depend on the completion order\<close>

text \<open>
  Claim C4. For every collection of provider results, merged in any order, the final
  sequence is the same and is sorted in ascending lexicographic order. The order in which
  the futures complete is the order of the list that the loop of
  \<^verbatim>\<open>enumerate_subdomains\<close> walks; two lists with the same elements give the same
  set, the same sorted list and the same outcome of \<^verbatim>\<open>main\<close>.
\<close>

theorem merge_is_order_independent:
  assumes "mset rs = mset rs'" and "mset c = mset c'"
  shows "sorted_list_of_set (collect rs {}) = sorted_list_of_set (collect rs' {}) \<and>
         sorted (sorted_list_of_set (collect rs {})) \<and>
         main a w c save s = main a w c' save s"
proof (intro conjI)
  show "sorted_list_of_set (collect rs {}) = sorted_list_of_set (collect rs' {})"
    by (rule arg_cong[OF collect_mset[OF assms(1)]])
  show "sorted (sorted_list_of_set (collect rs {}))"
    by (rule sorted_list_of_set.sorted_sorted_key_list_of_set)
  show "main a w c save s = main a w c' save s"
    unfolding main_def by (simp only: enumerate_mset[OF assms(2)])
qed

text \<open>
  Two results and an exception, merged in two orders; and the run of \<open>partial_world\<close>
  with the futures completing in the order of submission and in the reverse order.
\<close>

theorem merge_is_order_independent_witness:
  "sorted_list_of_set (collect [Inr {''b''}, Inl Timeout, Inr {''a''}] {}) =
     sorted_list_of_set (collect [Inr {''a''}, Inr {''b''}, Inl Timeout] {}) \<and>
   sorted_list_of_set (collect [Inr {''a''}, Inr {''b''}, Inl Timeout] {}) = [''a'', ''b''] \<and>
   main \<lparr>domain_arg = ''example.com'', output_arg = None\<rparr> partial_world (rev futures) no_save () =
     main \<lparr>domain_arg = ''example.com'', output_arg = None\<rparr> partial_world futures no_save () \<and>
   returned (main \<lparr>domain_arg = ''example.com'', output_arg = None\<rparr> partial_world futures no_save ()) =
     Inr [''api.example.com'', ''shop.example.com'']"
proof -
  have h1: "mset [Inr {''b''}, Inl Timeout, Inr {''a''}] =
            mset [Inr {''a''}, Inr {''b''}, Inl Timeout :: exn + string set]"
    by simp
  have h2: "mset (rev futures) = mset futures" by simp
  note th = merge_is_order_independent[OF h1 h2,
      of "\<lparr>domain_arg = ''example.com'', output_arg = None\<rparr>" partial_world no_save "()"]
  have e1: "sorted_list_of_set (collect [Inr {''a''}, Inr {''b''}, Inl Timeout] {}) = [''a'', ''b'']"
    by code_simp
  have e2: "returned (main \<lparr>domain_arg = ''example.com'', output_arg = None\<rparr> partial_world futures no_save ()) =
     Inr [''api.example.com'', ''shop.example.com'']"
    by code_simp
  show ?thesis
    by (rule conjI[OF th[THEN conjunct1] conjI[OF e1 conjI[OF th[THEN conjunct2, THEN conjunct2] e2]]])
qed

subsection \<open>C5: one lower-case entry for a hostname reported twice\<close>



subsection \<open>C1: failing providers do not fail the enumeration\<close>

text \<open>
  Claim C1. For every domain, when some providers fail (the request raises, the status is
  not 200, the body of a JSON source does not parse), the enumeration still returns, and
  what it returns is the union of the sets of the providers that did not fail. When every
  provider fails the set is empty and \<^verbatim>\<open>main\<close> returns the empty list, not an
  exception.
\<close>

theorem enumeration_survives_failures:
  assumes "mset completion = mset futures"
  shows "all_subdomains (enumerate_subdomains domain w completion) =
           (\<Union>p\<in>{p. \<not> fetch_failed p (w p)}. query p domain (w p)) \<and>
         ((\<forall>p. fetch_failed p (w p)) \<longrightarrow>
            all_subdomains (enumerate_subdomains domain w completion) = {} \<and>
            returned (main \<lparr>domain_arg = d, output_arg = None\<rparr> w completion save s) = Inr [])"
proof (intro conjI impI)
  from assms have u: "set completion = UNIV" by (rule completion_all)
  have "all_subdomains (enumerate_subdomains domain w completion) = (\<Union>p. query p domain (w p))"
    using u by (simp add: all_subdomains_eq)
  also have "\<dots> = (\<Union>p\<in>{p. \<not> fetch_failed p (w p)}. query p domain (w p))"
    using query_failed by fastforce
  finally show "all_subdomains (enumerate_subdomains domain w completion) =
           (\<Union>p\<in>{p. \<not> fetch_failed p (w p)}. query p domain (w p))" .
next
  assume a: "\<forall>p. fetch_failed p (w p)"
  then show "all_subdomains (enumerate_subdomains domain w completion) = {}"
    by (simp add: all_subdomains_eq query_failed)
next
  assume a: "\<forall>p. fetch_failed p (w p)"
  then have "all_subdomains (enumerate_subdomains (strip (lower d)) w completion) = {}"
    by (simp add: all_subdomains_eq query_failed)
  then show "returned (main \<lparr>domain_arg = d, output_arg = None\<rparr> w completion save s) = Inr []"
    by (simp add: main_def Let_def sorted_list_of_set.sorted_key_list_of_set_empty)
qed

text \<open>
  In \<open>failing_world\<close> all four providers fail and the run returns the empty list. In
  \<open>partial_world\<close> three providers time out and the result is what the fourth reports.
\<close>

theorem enumeration_survives_failures_witness:
  "(\<forall>p. fetch_failed p (failing_world p)) \<and>
   all_subdomains (enumerate_subdomains ''example.com'' failing_world (rev futures)) = {} \<and>
   returned (main \<lparr>domain_arg = ''example.com'', output_arg = None\<rparr> failing_world (rev futures)
               no_save ()) = Inr [] \<and>
   all_subdomains (enumerate_subdomains ''example.com'' partial_world (rev futures)) =
     (\<Union>p\<in>{p. \<not> fetch_failed p (partial_world p)}. query p ''example.com'' (partial_world p)) \<and>
   all_subdomains (enumerate_subdomains ''example.com'' partial_world (rev futures)) =
     {''api.example.com'', ''shop.example.com''}"
proof -
  have h: "mset (rev futures) = mset futures" by simp
  have f: "\<forall>p. fetch_failed p (failing_world p)"
  proof
    fix p show "fetch_failed p (failing_world p)"
      by (cases p) (simp_all add: fetch_failed_def failing_world_def)
  qed
  note t1 = enumeration_survives_failures[OF h, of "''example.com''" failing_world
              "''example.com''" no_save "()"]
  note t2 = enumeration_survives_failures[OF h, of "''example.com''" partial_world
              "''example.com''" no_save "()"]
  have e: "all_subdomains (enumerate_subdomains ''example.com'' partial_world (rev futures)) =
     {''api.example.com'', ''shop.example.com''}"
    by code_simp
  note b = t1[THEN conjunct2, THEN mp, OF f]
  show ?thesis
    by (rule conjI[OF f conjI[OF b[THEN conjunct1] conjI[OF b[THEN conjunct2]
          conjI[OF t2[THEN conjunct1] e]]]])
qed

subsection \<open>C3: no domain is rejected\<close>

text \<open>
  Claim C3 says that a run with an empty domain fails before any provider is dispatched.
  \<^verbatim>\<open>main\<close> lowers and trims the domain and calls \<^verbatim>\<open>enumerate_subdomains\<close>
  without a test. With the empty domain all four providers are dispatched, and the run
  returns a name that is no subdomain of anything.
\<close>

theorem empty_domain_is_not_rejected:
  "dispatched (main \<lparr>domain_arg = [], output_arg = None\<rparr> unrelated_world futures no_save
                 ()) = [Crtsh, HackerTarget, RapidDNS, AlienVault] \<and>
   returned (main \<lparr>domain_arg = [], output_arg = None\<rparr> unrelated_world futures no_save
               ()) = Inr [''unrelated.org'']"
proof (rule conjI)
  show "dispatched (main \<lparr>domain_arg = [], output_arg = None\<rparr> unrelated_world futures no_save
                 ()) = [Crtsh, HackerTarget, RapidDNS, AlienVault]"
    by code_simp
  show "returned (main \<lparr>domain_arg = [], output_arg = None\<rparr> unrelated_world futures no_save
               ()) = Inr [''unrelated.org'']"
    by code_simp
qed

lemma dispatched_main: "dispatched (main a w c save s) = futures"
  by (simp add: main_def enumerate_subdomains_def Let_def split: option.splits prod.splits)

text \<open>
  Claim C3 as amended. No value of the domain aborts a run before dispatch: for every
  command line, the empty domain included, \<^verbatim>\<open>main\<close> dispatches the four providers, and
  when no output file is asked for it returns the sorted merge. The empty domain is a
  suffix of every string, so with it every candidate passes the suffix check.
\<close>

theorem no_domain_is_rejected:
  "dispatched (main a w c save s) = futures \<and>
   returned (main (a\<lparr>output_arg := None\<rparr>) w c save s) =
     Inr (sorted_list_of_set
            (all_subdomains (enumerate_subdomains (strip (lower (domain_arg a))) w c))) \<and>
   endswith h []"
proof (intro conjI)
  show "dispatched (main a w c save s) = futures" by (rule dispatched_main)
  show "returned (main (a\<lparr>output_arg := None\<rparr>) w c save s) =
     Inr (sorted_list_of_set
            (all_subdomains (enumerate_subdomains (strip (lower (domain_arg a))) w c)))"
    by (simp add: main_def Let_def)
  show "endswith h []" by (simp add: endswith_def)
qed

subsection \<open>C7: the passive-DNS aggregator does not trim\<close>

text \<open>
  Claim C7 says that both structured-list providers trim and lower a hostname before the
  filter. The certificate-log provider does, and so does the delimited-line provider. The
  passive-DNS aggregator lowers the hostname and does not trim it: for the domain
  \<open>example.com\<close> a hostname with a blank in front is kept with the blank, and one
  with a blank behind fails the suffix check and is lost, where the other two providers
  return \<open>mail.example.com\<close>.
\<close>

theorem alienvault_does_not_trim:
  "query_alienvault ''example.com'' (json_response (passive_dns ['' Mail.example.com''])) =
     {'' mail.example.com''} \<and>
   query_alienvault ''example.com'' (json_response (passive_dns [''Mail.example.com ''])) = {} \<and>
   query_crtsh ''example.com'' (json_response (JArr [crt_entry '' Mail.example.com''])) =
     {''mail.example.com''} \<and>
   query_crtsh ''example.com'' (json_response (JArr [crt_entry ''Mail.example.com ''])) =
     {''mail.example.com''} \<and>
   query_hackertarget ''example.com'' (text_response '' Mail.example.com ,93.184.216.34'') =
     {''mail.example.com''}"
proof (intro conjI)
  show "query_alienvault ''example.com'' (json_response (passive_dns ['' Mail.example.com''])) =
     {'' mail.example.com''}"
    by code_simp
  show "query_alienvault ''example.com'' (json_response (passive_dns [''Mail.example.com ''])) =
     {}"
    by code_simp
  show "query_crtsh ''example.com'' (json_response (JArr [crt_entry '' Mail.example.com''])) =
     {''mail.example.com''}"
    by code_simp
  show "query_crtsh ''example.com'' (json_response (JArr [crt_entry ''Mail.example.com ''])) =
     {''mail.example.com''}"
    by code_simp
  show "query_hackertarget ''example.com'' (text_response '' Mail.example.com ,93.184.216.34'') =
     {''mail.example.com''}"
    by code_simp
qed

end
